theory Spec2Isabelle
  imports Complex_Main "HOL-Library.Stream"
begin

section \<open>Python values and library calls used by app.py\<close>

text \<open>
  The exceptions the handlers can meet. Every handler body is wrapped in
  \<^verbatim>\<open>try ... except Exception as e\<close> and answers with \<^verbatim>\<open>str(e)\<close> and status 500.
\<close>

datatype py_error = IndexError | AttributeError | ZeroDivisionError | OverflowError

definition str_exc :: "py_error \<Rightarrow> string" where
  "str_exc e =
     (case e of
        IndexError \<Rightarrow> ''list index out of range''
      | AttributeError \<Rightarrow>
          [CHR 0x27] @ ''NoneType'' @ [CHR 0x27] @ '' object has no attribute ''
            @ [CHR 0x27] @ ''get'' @ [CHR 0x27]
      | ZeroDivisionError \<Rightarrow> ''division by zero''
      | OverflowError \<Rightarrow> ''integer division result too large for a float'')"

text \<open>\<^verbatim>\<open>len(xs)\<close> is a Python int.\<close>

definition len :: "'a list \<Rightarrow> int" where
  "len xs = int (length xs)"

text \<open>
  \<^verbatim>\<open>xs[i]\<close> on a Python list: the indices \<open>0 .. len - 1\<close> count from the front, the
  indices \<open>-len .. -1\<close> from the back, and any other index raises IndexError.
\<close>

definition py_getitem :: "'a list \<Rightarrow> int \<Rightarrow> py_error + 'a" where
  "py_getitem xs i =
     (if 0 \<le> i \<and> i < len xs then Inr (xs ! nat i)
      else if - len xs \<le> i \<and> i < 0 then Inr (xs ! nat (len xs + i))
      else Inl IndexError)"

text \<open>\<^verbatim>\<open>str(n)\<close> for an int, as the f-strings of the source format it: decimal digits.\<close>

definition digit_char :: "nat \<Rightarrow> char" where
  "digit_char d = ''0123456789'' ! d"

fun str_nat :: "nat \<Rightarrow> string" where
  "str_nat n = (if n < 10 then [digit_char n] else str_nat (n div 10) @ [digit_char (n mod 10)])"

declare str_nat.simps [simp del]

definition str_int :: "int \<Rightarrow> string" where
  "str_int i = (if i < 0 then CHR ''-'' # str_nat (nat (- i)) else str_nat (nat i))"

text \<open>
  \<^verbatim>\<open>random.randint(a, b)\<close>. The generator of the \<^verbatim>\<open>random\<close> module is process-wide
  state: an endless supply of raw draws. One call consumes one draw and maps it into
  the closed range \<open>[a, b]\<close>; every value of the range is the image of some draw. Both
  call sites pass constant, non-empty ranges.
\<close>

type_synonym rng = "nat stream"

definition randint :: "int \<Rightarrow> int \<Rightarrow> rng \<Rightarrow> int \<times> rng" where
  "randint a b g = (a + int (shd g mod nat (b - a + 1)), stl g)"

text \<open>
  \<^verbatim>\<open>x / y\<close> on two ints is true division: the exact quotient rounded to a binary64
  float, ZeroDivisionError for a zero divisor, OverflowError when the quotient is
  too large for a float. The rounding function \<open>fl\<close> of the platform (to nearest,
  ties to even) is a parameter.
\<close>

definition dbl_overflow :: real where
  "dbl_overflow = 2 ^ 1024 - 2 ^ 970"

definition true_divide :: "(real \<Rightarrow> real) \<Rightarrow> int \<Rightarrow> int \<Rightarrow> py_error + real" where
  "true_divide fl x y =
     (if y = 0 then Inl ZeroDivisionError
      else let q = real_of_int x / real_of_int y
           in if dbl_overflow \<le> \<bar>q\<bar> then Inl OverflowError else Inr (fl q))"

section \<open>Data model\<close>

record metrics_t =
  attention :: int
  positivity :: int
  confidence :: int

record answer_t =
  question :: string
  answer :: string
  timestamp :: string

text \<open>
  The session dict. The type of the \<^verbatim>\<open>'questions'\<close> entry is a parameter: the list itself
  where lists are held by value, the address of the list object where the heap is
  explicit (see the handlers at the level of list objects below).
\<close>

record 'q session_of =
  job_role :: string
  resume_filename :: string
  start_time :: string
  questions :: 'q
  answers :: "answer_t list"
  current_question :: int
  metrics :: metrics_t

type_synonym session = "string list session_of"

text \<open>
  The module's globals: the session store, the advisory \<^verbatim>\<open>current_session_id\<close>, and
  the generator of the \<^verbatim>\<open>random\<close> module.
\<close>

record state =
  interview_sessions :: "string \<rightharpoonup> session"
  current_session_id :: "string option"
  rng :: rng

definition INTERVIEW_QUESTIONS :: "string list" where
  "INTERVIEW_QUESTIONS =
     [''Can you walk me through your experience with the technologies mentioned in your resume?'',
      ''Describe a challenging project you worked on and how you overcame obstacles.'',
      ''How do you handle working in a team environment with different personalities?'']"

text \<open>
  The dict literal of lines 50-54 and 99-103: three calls of \<^verbatim>\<open>random.randint(70, 95)\<close>,
  evaluated in the order attention, positivity, confidence.
\<close>

definition sample_metrics :: "rng \<Rightarrow> metrics_t \<times> rng" where
  "sample_metrics g =
     (let (a, g1) = randint 70 95 g;
          (p, g2) = randint 70 95 g1;
          (c, g3) = randint 70 95 g2
      in (\<lparr>attention = a, positivity = p, confidence = c\<rparr>, g3))"

section \<open>The report\<close>

text \<open>
  The layout library is not part of the repository. Its flowables are data here, and
  a document is the story handed to \<^verbatim>\<open>doc.build\<close>: the title style, the table style and
  the column widths carry no session data and are left out. What the library does with
  a story (pagination, or refusing a paragraph whose text is not well-formed markup) is
  beyond this model.
\<close>

datatype style = CustomTitle | Normal | Heading2

datatype flowable =
    Paragraph string style
  | Spacer int int
  | Table "string list list"

text \<open>The loop \<^verbatim>\<open>for i, qa in enumerate(session['answers'], 1)\<close>, appending to the story.\<close>

fun qa_loop :: "int \<Rightarrow> answer_t list \<Rightarrow> flowable list \<Rightarrow> flowable list" where
  "qa_loop i [] story = story"
| "qa_loop i (qa # rest) story =
     qa_loop (i + 1) rest
       (story @
        [Paragraph (''<b>Question '' @ str_int i @ '':</b> '' @ question qa) Normal,
         Paragraph (''<b>Answer:</b> '' @ answer qa) Normal,
         Spacer 1 12])"

definition avg_score :: "(real \<Rightarrow> real) \<Rightarrow> metrics_t \<Rightarrow> py_error + real" where
  "avg_score fl m = true_divide fl (attention m + positivity m + confidence m) 3"

definition assessment :: "real \<Rightarrow> string" where
  "assessment avg =
     (if avg \<ge> 90 then
        ''Excellent performance! The candidate demonstrated strong communication skills and relevant experience.''
      else if avg \<ge> 80 then
        ''Good performance! The candidate showed solid understanding and relevant experience.''
      else if avg \<ge> 70 then
        ''Fair performance. The candidate has potential but could benefit from more practice.''
      else
        ''Needs improvement. The candidate should focus on providing more detailed and specific examples.'')"

definition metrics_table_data :: "session \<Rightarrow> string list list" where
  "metrics_table_data s =
     [[''Metric'', ''Score''],
      [''Attention'', str_int (attention (metrics s)) @ ''%''],
      [''Positivity'', str_int (positivity (metrics s)) @ ''%''],
      [''Confidence'', str_int (confidence (metrics s)) @ ''%'']]"

definition generate_pdf_report :: "(real \<Rightarrow> real) \<Rightarrow> session \<Rightarrow> py_error + flowable list" where
  "generate_pdf_report fl s =
     (let story = [];
          story = story @ [Paragraph ''AI Interview Report'' CustomTitle];
          story = story @ [Spacer 1 20];
          story = story @ [Paragraph (''<b>Job Role:</b> '' @ job_role s) Normal];
          story = story @ [Paragraph (''<b>Resume:</b> '' @ resume_filename s) Normal];
          story = story @ [Paragraph (''<b>Interview Date:</b> '' @ take 10 (start_time s)) Normal];
          story = story @ [Spacer 1 20];
          story = story @ [Paragraph ''<b>Performance Metrics:</b>'' Heading2];
          story = story @ [Table (metrics_table_data s)];
          story = story @ [Spacer 1 20];
          story = story @ [Paragraph ''<b>Interview Questions & Answers:</b>'' Heading2];
          story = qa_loop 1 (answers s) story;
          story = story @ [Paragraph ''<b>Overall Assessment:</b>'' Heading2]
      in case avg_score fl (metrics s) of
           Inl e \<Rightarrow> Inl e
         | Inr avg \<Rightarrow> Inr (story @ [Paragraph (assessment avg) Normal]))"

section \<open>The request handlers\<close>

text \<open>
  A response is a JSON body (or the file sent) and a status code. The constructors of
  \<open>body\<close> list the fields next to \<^verbatim>\<open>success\<close> in the order of the source:
  \<^item> \<open>StartOk session_id message first_question total_questions\<close>
  \<^item> \<open>Complete message metrics total_questions total_answers\<close>, with
    \<^verbatim>\<open>interview_complete\<close> true
  \<^item> \<open>NextQuestion next_question question_number total_questions metrics\<close>, with
    \<^verbatim>\<open>interview_complete\<close> false
  \<^item> \<open>MetricsOk metrics current_question total_questions\<close>
  \<^item> \<open>PdfFile document download_name mimetype\<close>
  \<^item> \<open>Failure error\<close>

  A request's JSON body is \<open>Some\<close> of its object, with strings for the values the
  handlers read, or \<open>None\<close> when there is no JSON object, in which case \<^verbatim>\<open>data.get\<close>
  raises AttributeError. Query arguments are optional strings.
\<close>

datatype body =
    StartOk string string string int
  | Complete string metrics_t int int
  | NextQuestion string int int metrics_t
  | MetricsOk metrics_t int int
  | PdfFile "flowable list" string string
  | Failure string

type_synonym response = "body \<times> nat"

text \<open>\<^verbatim>\<open>data.get(key, default)\<close>.\<close>

definition get_default :: "(string \<rightharpoonup> string) \<Rightarrow> string \<Rightarrow> string \<Rightarrow> string" where
  "get_default d k dflt = (case d k of None \<Rightarrow> dflt | Some v \<Rightarrow> v)"

text \<open>
  \<^verbatim>\<open>start_interview\<close>: \<open>resume\<close> is the filename of the uploaded file, if any (a file
  object with an empty filename is falsy); \<open>now_stamp\<close> and \<open>now_iso\<close> are the two clock
  readings, formatted by \<^verbatim>\<open>strftime\<close> and \<^verbatim>\<open>isoformat\<close>.
\<close>

definition start_interview ::
  "state \<Rightarrow> (string \<rightharpoonup> string) option \<Rightarrow> string option \<Rightarrow> string \<Rightarrow> string \<Rightarrow> response \<times> state" where
  "start_interview st json resume now_stamp now_iso =
     (case json of
        None \<Rightarrow> ((Failure (str_exc AttributeError), 500), st)
      | Some data \<Rightarrow>
          (let role = get_default data ''job_role'' ''Unknown Role'';
               (n, g1) = randint 1000 9999 (rng st);
               session_id = ''session_'' @ now_stamp @ ''_'' @ str_int n;
               (m, g2) = sample_metrics g1;
               s = \<lparr>job_role = role,
                    resume_filename =
                      (case resume of
                         None \<Rightarrow> ''No file uploaded''
                       | Some f \<Rightarrow> if f = [] then ''No file uploaded'' else f),
                    start_time = now_iso,
                    questions = INTERVIEW_QUESTIONS,
                    answers = [],
                    current_question = 0,
                    metrics = m\<rparr>;
               st' = st\<lparr>interview_sessions := (interview_sessions st)(session_id \<mapsto> s),
                        current_session_id := Some session_id,
                        rng := g2\<rparr>
           in case py_getitem INTERVIEW_QUESTIONS 0 of
                Inl e \<Rightarrow> ((Failure (str_exc e), 500), st')
              | Inr q \<Rightarrow>
                  ((StartOk session_id ''Interview session started successfully'' q
                      (len INTERVIEW_QUESTIONS), 200), st')))"

text \<open>
  \<^verbatim>\<open>submit_answer\<close>. The session dict is mutated in place, so whatever was written
  before an exception stays written: the state returned with a 500 is the state at
  the point of the raise. The dict passed to \<^verbatim>\<open>append\<close> is built first, so the lookup
  of the current question comes before the append. The \<^verbatim>\<open>audio\<close> entry is read and
  never used.
\<close>

definition submit_answer ::
  "state \<Rightarrow> (string \<rightharpoonup> string) option \<Rightarrow> string \<Rightarrow> response \<times> state" where
  "submit_answer st json now_iso =
     (case json of
        None \<Rightarrow> ((Failure (str_exc AttributeError), 500), st)
      | Some data \<Rightarrow>
          (let answer_text = get_default data ''answer'' [] in
           case (case data ''session_id'' of None \<Rightarrow> None | Some sid \<Rightarrow>
                   (case interview_sessions st sid of None \<Rightarrow> None | Some s \<Rightarrow> Some (sid, s))) of
             None \<Rightarrow> ((Failure ''Invalid session ID'', 400), st)
           | Some (sid, s) \<Rightarrow>
               (case py_getitem (questions s) (current_question s) of
                  Inl e \<Rightarrow> ((Failure (str_exc e), 500), st)
                | Inr q \<Rightarrow>
                    (let s1 = s\<lparr>answers := answers s @
                                   [\<lparr>question = q, answer = answer_text, timestamp = now_iso\<rparr>]\<rparr>;
                         s2 = s1\<lparr>current_question := current_question s1 + 1\<rparr>;
                         (m, g') = sample_metrics (rng st);
                         s3 = s2\<lparr>metrics := m\<rparr>;
                         st' = st\<lparr>interview_sessions := (interview_sessions st)(sid \<mapsto> s3),
                                  rng := g'\<rparr>
                     in if current_question s3 \<ge> len (questions s3) then
                          ((Complete ''Interview completed successfully'' (metrics s3)
                              (len (questions s3)) (len (answers s3)), 200), st')
                        else
                          (case py_getitem (questions s3) (current_question s3) of
                             Inl e \<Rightarrow> ((Failure (str_exc e), 500), st')
                           | Inr next_question \<Rightarrow>
                               ((NextQuestion next_question (current_question s3 + 1)
                                   (len (questions s3)) (metrics s3), 200), st'))))))"

text \<open>
  \<^verbatim>\<open>get_report\<close> and \<^verbatim>\<open>get_metrics\<close> read the store; the guard
  \<^verbatim>\<open>not session_id or session_id not in interview_sessions\<close> rejects a missing or empty
  argument as well as an unknown one.
\<close>

definition lookup_arg :: "state \<Rightarrow> string option \<Rightarrow> (string \<times> session) option" where
  "lookup_arg st arg =
     (case arg of
        None \<Rightarrow> None
      | Some sid \<Rightarrow>
          if sid = [] then None
          else (case interview_sessions st sid of None \<Rightarrow> None | Some s \<Rightarrow> Some (sid, s)))"

definition get_report :: "(real \<Rightarrow> real) \<Rightarrow> state \<Rightarrow> string option \<Rightarrow> response \<times> state" where
  "get_report fl st arg =
     (case lookup_arg st arg of
        None \<Rightarrow> ((Failure ''Invalid session ID'', 400), st)
      | Some (sid, s) \<Rightarrow>
          (case generate_pdf_report fl s of
             Inl e \<Rightarrow> ((Failure (str_exc e), 500), st)
           | Inr pdf \<Rightarrow>
               ((PdfFile pdf (''interview_report_'' @ sid @ ''.pdf'') ''application/pdf'', 200), st)))"

definition get_metrics :: "state \<Rightarrow> string option \<Rightarrow> response \<times> state" where
  "get_metrics st arg =
     (case lookup_arg st arg of
        None \<Rightarrow> ((Failure ''Invalid session ID'', 400), st)
      | Some (sid, s) \<Rightarrow>
          ((MetricsOk (metrics s) (current_question s) (len (questions s)), 200), st))"

section \<open>Reachable states\<close>

text \<open>
  The process starts with an empty store and any generator state; every request is
  one of the four handlers, with any arguments and any clock reading.
\<close>

inductive reachable :: "state \<Rightarrow> bool" where
  initial: "reachable \<lparr>interview_sessions = Map.empty, current_session_id = None, rng = g\<rparr>"
| start: "reachable st \<Longrightarrow> reachable (snd (start_interview st json resume now_stamp now_iso))"
| submit: "reachable st \<Longrightarrow> reachable (snd (submit_answer st json now_iso))"
| report: "reachable st \<Longrightarrow> reachable (snd (get_report fl st arg))"
| metrics: "reachable st \<Longrightarrow> reachable (snd (get_metrics st arg))"

section \<open>Notions for stating the properties\<close>

definition metrics_in_range :: "metrics_t \<Rightarrow> bool" where
  "metrics_in_range m \<longleftrightarrow>
     70 \<le> attention m \<and> attention m \<le> 95 \<and>
     70 \<le> positivity m \<and> positivity m \<le> 95 \<and>
     70 \<le> confidence m \<and> confidence m \<le> 95"

text \<open>A client that sends a sequence of submit requests, collecting the responses.\<close>

fun submit_all :: "state \<Rightarrow> ((string \<rightharpoonup> string) option \<times> string) list \<Rightarrow> response list \<times> state" where
  "submit_all st [] = ([], st)"
| "submit_all st ((json, now_iso) # rest) =
     (let (r, st1) = submit_answer st json now_iso;
          (rs, st2) = submit_all st1 rest
      in (r # rs, st2))"

text \<open>The \<^verbatim>\<open>interview_complete\<close> field of a response body, when it has one.\<close>

fun interview_complete :: "response \<Rightarrow> bool option" where
  "interview_complete (Complete _ _ _ _, _) = Some True"
| "interview_complete (NextQuestion _ _ _ _, _) = Some False"
| "interview_complete _ = None"

text \<open>The invariant of a stored session, and of the store.\<close>

definition session_inv :: "session \<Rightarrow> bool" where
  "session_inv s \<longleftrightarrow>
     0 \<le> current_question s \<and> current_question s \<le> len (questions s) \<and>
     len (answers s) = current_question s \<and> metrics_in_range (metrics s)"

definition state_inv :: "state \<Rightarrow> bool" where
  "state_inv st \<longleftrightarrow> (\<forall>sid s. interview_sessions st sid = Some s \<longrightarrow> session_inv s)"

text \<open>The tables of a story, in order.\<close>

fun tables :: "flowable list \<Rightarrow> string list list list" where
  "tables [] = []"
| "tables (Table rows # fs) = rows # tables fs"
| "tables (Paragraph _ _ # fs) = tables fs"
| "tables (Spacer _ _ # fs) = tables fs"

text \<open>The closing flowable of a report, when there is a report.\<close>

definition closing :: "py_error + flowable list \<Rightarrow> flowable option" where
  "closing r = (case r of Inl e \<Rightarrow> None | Inr story \<Rightarrow> Some (last story))"

section \<open>An example run\<close>

text \<open>
  The scenario of the specification: a session for a backend engineer with no resume,
  on a generator whose raw draws are all 7, so that the identifier's suffix is 1007
  and every metric is 77.
\<close>

definition ex_init :: state where
  "ex_init = \<lparr>interview_sessions = Map.empty, current_session_id = None, rng = sconst 7\<rparr>"

definition ex_sid :: string where
  "ex_sid = ''session_20240101_120000_1007''"

definition ex_metrics :: metrics_t where
  "ex_metrics = \<lparr>attention = 77, positivity = 77, confidence = 77\<rparr>"

definition ex_session :: "answer_t list \<Rightarrow> int \<Rightarrow> session" where
  "ex_session as i =
     \<lparr>job_role = ''Backend Engineer'', resume_filename = ''No file uploaded'',
      start_time = ''2024-01-01T12:00:00'', questions = INTERVIEW_QUESTIONS,
      answers = as, current_question = i, metrics = ex_metrics\<rparr>"

definition ex_state :: "answer_t list \<Rightarrow> int \<Rightarrow> state" where
  "ex_state as i =
     \<lparr>interview_sessions = [ex_sid \<mapsto> ex_session as i],
      current_session_id = Some ex_sid, rng = sconst 7\<rparr>"

definition ex_submit :: "string \<Rightarrow> (string \<rightharpoonup> string) option" where
  "ex_submit a = Some ([''answer'' \<mapsto> a](''session_id'' \<mapsto> ex_sid))"

definition ex_answer :: "nat \<Rightarrow> string \<Rightarrow> string \<Rightarrow> answer_t" where
  "ex_answer k a t = \<lparr>question = INTERVIEW_QUESTIONS ! k, answer = a, timestamp = t\<rparr>"

definition ex_answers :: "answer_t list" where
  "ex_answers =
     [ex_answer 0 ''I have 5 years of experience'' ''2024-01-01T12:01:00'',
      ex_answer 1 ''We migrated a billing system'' ''2024-01-01T12:02:00'',
      ex_answer 2 ''I listen first'' ''2024-01-01T12:03:00'']"

text \<open>The session after its three answers, with metrics of one's choice.\<close>

definition ex_scored :: "int \<Rightarrow> int \<Rightarrow> int \<Rightarrow> session" where
  "ex_scored a p c =
     (ex_session ex_answers 3)\<lparr>metrics := \<lparr>attention = a, positivity = p, confidence = c\<rparr>\<rparr>"

text \<open>
  The same scenario on a generator whose raw draws count upwards, so that successive
  samples differ: from draw 3 on, the identifier's suffix is 1003 and the metrics of
  the new session are 74, 75, 76.
\<close>

definition ctr_init :: state where
  "ctr_init = \<lparr>interview_sessions = Map.empty, current_session_id = None, rng = siterate Suc 3\<rparr>"

definition ctr_sid :: string where
  "ctr_sid = ''session_20240101_120000_1003''"

definition ctr_session :: "answer_t list \<Rightarrow> int \<Rightarrow> int \<Rightarrow> int \<Rightarrow> int \<Rightarrow> session" where
  "ctr_session as i a p c =
     \<lparr>job_role = ''Backend Engineer'', resume_filename = ''No file uploaded'',
      start_time = ''2024-01-01T12:00:00'', questions = INTERVIEW_QUESTIONS,
      answers = as, current_question = i,
      metrics = \<lparr>attention = a, positivity = p, confidence = c\<rparr>\<rparr>"

definition ctr_state :: "answer_t list \<Rightarrow> int \<Rightarrow> int \<Rightarrow> int \<Rightarrow> int \<Rightarrow> nat \<Rightarrow> state" where
  "ctr_state as i a p c k =
     \<lparr>interview_sessions = [ctr_sid \<mapsto> ctr_session as i a p c],
      current_session_id = Some ctr_sid, rng = siterate Suc k\<rparr>"

definition ctr_submit :: "string \<Rightarrow> (string \<rightharpoonup> string)" where
  "ctr_submit a = [''answer'' \<mapsto> a](''session_id'' \<mapsto> ctr_sid)"

section \<open>The handlers at the level of list objects\<close>

text \<open>
  The handlers above hold every list by value. Python holds a list object by
  reference, and whether two sessions can see each other's questions depends on
  which objects the references point to. Here the list objects of the questions live
  on a heap: \<open>cells\<close> gives the elements of the object at an address, addresses
  below \<open>next_free\<close> are in use, and an object that is referred to keeps its address.
  The global \<^verbatim>\<open>INTERVIEW_QUESTIONS\<close> holds the address \<open>bank_ref\<close>, and the
  \<^verbatim>\<open>'questions'\<close> entry of a session holds an address. Everything else is as above.
\<close>

type_synonym addr = nat

record obj_state =
  cells :: "addr \<Rightarrow> string list"
  next_free :: addr
  bank_ref :: addr
  obj_sessions :: "string \<rightharpoonup> addr session_of"
  obj_current_session_id :: "string option"
  obj_rng :: rng

text \<open>\<^verbatim>\<open>xs.copy()\<close>: a new list object with the elements of the object at \<open>a\<close>.\<close>

definition list_copy :: "obj_state \<Rightarrow> addr \<Rightarrow> addr \<times> obj_state" where
  "list_copy ost a =
     (next_free ost,
      ost\<lparr>cells := (cells ost)(next_free ost := cells ost a),
          next_free := Suc (next_free ost)\<rparr>)"


text \<open>
  \<^verbatim>\<open>start_interview\<close> with the objects explicit: line 47 stores the address that
  \<^verbatim>\<open>INTERVIEW_QUESTIONS.copy()\<close> returns, lines 61 and 62 read the bank through its
  address.
\<close>

definition start_interview_obj ::
  "obj_state \<Rightarrow> (string \<rightharpoonup> string) option \<Rightarrow> string option \<Rightarrow> string \<Rightarrow> string \<Rightarrow> response \<times> obj_state" where
  "start_interview_obj ost json resume now_stamp now_iso =
     (case json of
        None \<Rightarrow> ((Failure (str_exc AttributeError), 500), ost)
      | Some data \<Rightarrow>
          (let role = get_default data ''job_role'' ''Unknown Role'';
               (n, g1) = randint 1000 9999 (obj_rng ost);
               session_id = ''session_'' @ now_stamp @ ''_'' @ str_int n;
               (q, ost1) = list_copy ost (bank_ref ost);
               (m, g2) = sample_metrics g1;
               s = \<lparr>job_role = role,
                    resume_filename =
                      (case resume of
                         None \<Rightarrow> ''No file uploaded''
                       | Some f \<Rightarrow> if f = [] then ''No file uploaded'' else f),
                    start_time = now_iso,
                    questions = q,
                    answers = [],
                    current_question = 0,
                    metrics = m\<rparr>;
               ost' = ost1\<lparr>obj_sessions := (obj_sessions ost1)(session_id \<mapsto> s),
                          obj_current_session_id := Some session_id,
                          obj_rng := g2\<rparr>
           in case py_getitem (cells ost' (bank_ref ost')) 0 of
                Inl e \<Rightarrow> ((Failure (str_exc e), 500), ost')
              | Inr q0 \<Rightarrow>
                  ((StartOk session_id ''Interview session started successfully'' q0
                      (len (cells ost' (bank_ref ost'))), 200), ost')))"

text \<open>
  \<^verbatim>\<open>submit_answer\<close> with the objects explicit: \<^verbatim>\<open>session['questions']\<close> is an address,
  and indexing and \<^verbatim>\<open>len\<close> read the object behind it.
\<close>

definition submit_answer_obj ::
  "obj_state \<Rightarrow> (string \<rightharpoonup> string) option \<Rightarrow> string \<Rightarrow> response \<times> obj_state" where
  "submit_answer_obj ost json now_iso =
     (case json of
        None \<Rightarrow> ((Failure (str_exc AttributeError), 500), ost)
      | Some data \<Rightarrow>
          (let answer_text = get_default data ''answer'' [] in
           case (case data ''session_id'' of None \<Rightarrow> None | Some sid \<Rightarrow>
                   (case obj_sessions ost sid of None \<Rightarrow> None | Some s \<Rightarrow> Some (sid, s))) of
             None \<Rightarrow> ((Failure ''Invalid session ID'', 400), ost)
           | Some (sid, s) \<Rightarrow>
               (case py_getitem (cells ost (questions s)) (current_question s) of
                  Inl e \<Rightarrow> ((Failure (str_exc e), 500), ost)
                | Inr q \<Rightarrow>
                    (let s1 = s\<lparr>answers := answers s @
                                   [\<lparr>question = q, answer = answer_text, timestamp = now_iso\<rparr>]\<rparr>;
                         s2 = s1\<lparr>current_question := current_question s1 + 1\<rparr>;
                         (m, g') = sample_metrics (obj_rng ost);
                         s3 = s2\<lparr>metrics := m\<rparr>;
                         ost' = ost\<lparr>obj_sessions := (obj_sessions ost)(sid \<mapsto> s3),
                                    obj_rng := g'\<rparr>
                     in if current_question s3 \<ge> len (cells ost' (questions s3)) then
                          ((Complete ''Interview completed successfully'' (metrics s3)
                              (len (cells ost' (questions s3))) (len (answers s3)), 200), ost')
                        else
                          (case py_getitem (cells ost' (questions s3)) (current_question s3) of
                             Inl e \<Rightarrow> ((Failure (str_exc e), 500), ost')
                           | Inr next_question \<Rightarrow>
                               ((NextQuestion next_question (current_question s3 + 1)
                                   (len (cells ost' (questions s3))) (metrics s3), 200), ost'))))))"

text \<open>
  The states the process can be in, at the level of objects: it starts with the bank
  as a live object and no session; \<^verbatim>\<open>get_report\<close> and \<^verbatim>\<open>get_metrics\<close> write nothing.
\<close>

inductive reachable_obj :: "obj_state \<Rightarrow> bool" where
  obj_initial:
    "bank < nf \<Longrightarrow> cs bank = INTERVIEW_QUESTIONS \<Longrightarrow>
     reachable_obj \<lparr>cells = cs, next_free = nf, bank_ref = bank, obj_sessions = Map.empty,
                    obj_current_session_id = None, obj_rng = g\<rparr>"
| obj_start:
    "reachable_obj ost \<Longrightarrow>
     reachable_obj (snd (start_interview_obj ost json resume now_stamp now_iso))"
| obj_submit:
    "reachable_obj ost \<Longrightarrow> reachable_obj (snd (submit_answer_obj ost json now_iso))"

text \<open>
  Reading every reference gives back the state of the handlers that hold lists by
  value: the \<^verbatim>\<open>'questions'\<close> entry of a session is the object at its address.
\<close>

definition abs_session :: "(addr \<Rightarrow> string list) \<Rightarrow> addr session_of \<Rightarrow> session" where
  "abs_session cs s =
     \<lparr>job_role = job_role s, resume_filename = resume_filename s, start_time = start_time s,
      questions = cs (questions s), answers = answers s,
      current_question = current_question s, metrics = metrics s\<rparr>"

definition abs_state :: "obj_state \<Rightarrow> state" where
  "abs_state ost =
     \<lparr>interview_sessions = (\<lambda>sid. map_option (abs_session (cells ost)) (obj_sessions ost sid)),
      current_session_id = obj_current_session_id ost,
      rng = obj_rng ost\<rparr>"

text \<open>
  The references are well placed: the bank is in use and holds the three questions,
  and the questions of every session are an object in use that is neither the bank
  nor the questions of a session under another identifier.
\<close>

definition obj_wf :: "obj_state \<Rightarrow> bool" where
  "obj_wf ost \<longleftrightarrow>
     bank_ref ost < next_free ost \<and>
     cells ost (bank_ref ost) = INTERVIEW_QUESTIONS \<and>
     (\<forall>sid s. obj_sessions ost sid = Some s \<longrightarrow>
        questions s < next_free ost \<and> questions s \<noteq> bank_ref ost) \<and>
     (\<forall>sid s sid' s'.
        obj_sessions ost sid = Some s \<and> obj_sessions ost sid' = Some s' \<and> sid \<noteq> sid' \<longrightarrow>
        questions s \<noteq> questions s')"



section \<open>Basic facts about the handlers\<close>

lemma py_getitem_in_range:
  "0 \<le> i \<Longrightarrow> i < int (length xs) \<Longrightarrow> py_getitem xs i = Inr (xs ! nat i)"
  by (simp add: py_getitem_def len_def)

lemma py_getitem_at_len: "py_getitem xs (int (length xs)) = Inl IndexError"
  by (simp add: py_getitem_def len_def)

lemma randint_range:
  "a \<le> b \<Longrightarrow> a \<le> fst (randint a b g) \<and> fst (randint a b g) \<le> b"
proof -
  assume ab: "a \<le> b"
  have pos: "0 < nat (b - a + 1)" using ab by simp
  have "shd g mod nat (b - a + 1) < nat (b - a + 1)" using pos by (rule mod_less_divisor)
  then have "int (shd g mod nat (b - a + 1)) < b - a + 1" using ab by linarith
  then show ?thesis by (simp add: randint_def)
qed

lemma sample_metrics_in_range: "metrics_in_range (fst (sample_metrics g))"
proof -
  have r: "\<And>h. 70 \<le> fst (randint 70 95 h) \<and> fst (randint 70 95 h) \<le> 95"
    by (rule randint_range) simp
  show ?thesis
    using r [of g] r [of "snd (randint 70 95 g)"] r [of "snd (randint 70 95 (snd (randint 70 95 g)))"]
    by (simp add: sample_metrics_def metrics_in_range_def split_beta Let_def)
qed

lemma sample_metrics_draws:
  "sample_metrics g =
     (\<lparr>attention = 70 + int (shd g mod 26),
       positivity = 70 + int (shd (stl g) mod 26),
       confidence = 70 + int (shd (stl (stl g)) mod 26)\<rparr>,
      stl (stl (stl g)))"
  by (simp add: sample_metrics_def randint_def)

lemma bank_first: "py_getitem INTERVIEW_QUESTIONS 0 = Inr (INTERVIEW_QUESTIONS ! 0)"
  by (simp add: py_getitem_def len_def INTERVIEW_QUESTIONS_def)

lemma bank_len: "len INTERVIEW_QUESTIONS = 3"
  by (simp add: len_def INTERVIEW_QUESTIONS_def)

lemma bank_nth:
  "INTERVIEW_QUESTIONS ! 0 =
     ''Can you walk me through your experience with the technologies mentioned in your resume?''"
  "INTERVIEW_QUESTIONS ! Suc 0 =
     ''Describe a challenging project you worked on and how you overcame obstacles.''"
  "INTERVIEW_QUESTIONS ! 2 =
     ''How do you handle working in a team environment with different personalities?''"
  by (simp_all add: INTERVIEW_QUESTIONS_def)

lemma start_interview_Some:
  "start_interview st (Some data) resume now_stamp now_iso =
     (let sid = ''session_'' @ now_stamp @ ''_'' @ str_int (fst (randint 1000 9999 (rng st)));
          g1 = snd (randint 1000 9999 (rng st));
          s = \<lparr>job_role = get_default data ''job_role'' ''Unknown Role'',
               resume_filename =
                 (case resume of
                    None \<Rightarrow> ''No file uploaded''
                  | Some f \<Rightarrow> if f = [] then ''No file uploaded'' else f),
               start_time = now_iso,
               questions = INTERVIEW_QUESTIONS,
               answers = [],
               current_question = 0,
               metrics = fst (sample_metrics g1)\<rparr>
      in ((StartOk sid ''Interview session started successfully'' (INTERVIEW_QUESTIONS ! 0) 3, 200),
          st\<lparr>interview_sessions := (interview_sessions st)(sid \<mapsto> s),
             current_session_id := Some sid,
             rng := snd (sample_metrics g1)\<rparr>))"
  by (simp add: start_interview_def bank_first bank_len Let_def split_beta)

lemma start_interview_inv:
  assumes "state_inv st"
  shows "state_inv (snd (start_interview st json resume now_stamp now_iso))"
proof (cases json)
  case None
  then show ?thesis using assms by (simp add: start_interview_def)
next
  case (Some data)
  show ?thesis
    using assms unfolding Some start_interview_Some
    by (auto simp: state_inv_def session_inv_def Let_def bank_len sample_metrics_in_range) (simp add: len_def)
qed


lemma submit_answer_ok:
  assumes "interview_sessions st sid = Some s"
      and "data ''session_id'' = Some sid"
      and "0 \<le> current_question s"
      and "current_question s < len (questions s)"
  shows "submit_answer st (Some data) now_iso =
     (let i = current_question s;
          m = fst (sample_metrics (rng st));
          s' = s\<lparr>answers := answers s @
                    [\<lparr>question = questions s ! nat i,
                      answer = get_default data ''answer'' [],
                      timestamp = now_iso\<rparr>],
                 current_question := i + 1,
                 metrics := m\<rparr>;
          st' = st\<lparr>interview_sessions := (interview_sessions st)(sid \<mapsto> s'),
                   rng := snd (sample_metrics (rng st))\<rparr>
      in (if i + 1 = len (questions s)
          then (Complete ''Interview completed successfully'' m (len (questions s)) (len (answers s) + 1), 200)
          else (NextQuestion (questions s ! nat (i + 1)) (i + 2) (len (questions s)) m, 200), st'))"
  using assms
  by (auto simp: submit_answer_def Let_def split_beta len_def py_getitem_def nat_add_distrib)

lemma submit_answer_complete:
  assumes "interview_sessions st sid = Some s"
      and "current_question s = len (questions s)"
  shows "submit_answer st (Some (data(''session_id'' \<mapsto> sid))) now_iso =
           ((Failure ''list index out of range'', 500), st)"
  using assms
  by (simp add: submit_answer_def Let_def len_def py_getitem_at_len str_exc_def)

lemma submit_answer_unknown:
  assumes "interview_sessions st sid = None"
  shows "submit_answer st (Some (data(''session_id'' \<mapsto> sid))) now_iso =
           ((Failure ''Invalid session ID'', 400), st)"
  using assms by (simp add: submit_answer_def Let_def)

lemma submit_answer_inv:
  assumes "state_inv st"
  shows "state_inv (snd (submit_answer st json now_iso))"
proof (cases json)
  case None
  then show ?thesis using assms by (simp add: submit_answer_def)
next
  case (Some data)
  show ?thesis
  proof (cases "data ''session_id''")
    case None
    then show ?thesis using assms Some by (simp add: submit_answer_def Let_def)
  next
    case sid: (Some sid)
    show ?thesis
    proof (cases "interview_sessions st sid")
      case None
      then show ?thesis using assms Some sid by (simp add: submit_answer_def Let_def)
    next
      case s: (Some s)
      have inv: "session_inv s" using assms s by (auto simp: state_inv_def)
      show ?thesis
      proof (cases "current_question s = len (questions s)")
        case True
        have "data = data(''session_id'' \<mapsto> sid)" using sid by auto
        then have "submit_answer st (Some data) now_iso = ((Failure ''list index out of range'', 500), st)"
          using submit_answer_complete [OF s True, of data now_iso] by simp
        then show ?thesis using assms Some by simp
      next
        case False
        then have lt: "current_question s < len (questions s)" and ge: "0 \<le> current_question s"
          using inv by (auto simp: session_inv_def)
        show ?thesis
          using assms inv lt
          unfolding Some submit_answer_ok [where data = data, OF s sid ge lt]
          by (auto simp: state_inv_def session_inv_def Let_def len_def sample_metrics_in_range)
      qed
    qed
  qed
qed


lemma get_report_state: "snd (get_report fl st arg) = st"
  by (simp add: get_report_def split: option.splits sum.splits prod.splits)

lemma get_metrics_state: "snd (get_metrics st arg) = st"
  by (simp add: get_metrics_def split: option.splits prod.splits)

lemma reachable_inv: "reachable st \<Longrightarrow> state_inv st"
proof (induction rule: reachable.induct)
  case (initial g)
  then show ?case by (simp add: state_inv_def)
next
  case (start st json resume now_stamp now_iso)
  then show ?case by (simp add: start_interview_inv)
next
  case (submit st json now_iso)
  then show ?case by (simp add: submit_answer_inv)
next
  case (report st fl arg)
  then show ?case by (simp add: get_report_state)
next
  case (metrics st arg)
  then show ?case by (simp add: get_metrics_state)
qed

lemma submit_all_completes:
  assumes "interview_sessions st sid = Some s"
      and "0 \<le> current_question s"
      and "current_question s < len (questions s)"
      and "int (length reqs) = len (questions s) - current_question s"
      and "\<forall>r \<in> set reqs. \<exists>d. fst r = Some d \<and> d ''session_id'' = Some sid"
  shows "map interview_complete (fst (submit_all st reqs)) =
           replicate (length reqs - 1) (Some False) @ [Some True]"
  using assms
proof (induction reqs arbitrary: st s)
  case Nil
  then show ?case by simp
next
  case (Cons r rest)
  obtain json t where r: "r = (json, t)" by (cases r)
  obtain d where d: "json = Some d" "d ''session_id'' = Some sid"
    using Cons.prems(5) r by auto
  let ?i = "current_question s"
  let ?s' = "s\<lparr>answers := answers s @
                    [\<lparr>question = questions s ! nat ?i,
                      answer = get_default d ''answer'' [],
                      timestamp = t\<rparr>],
                 current_question := ?i + 1,
                 metrics := fst (sample_metrics (rng st))\<rparr>"
  let ?st' = "st\<lparr>interview_sessions := (interview_sessions st)(sid \<mapsto> ?s'),
                   rng := snd (sample_metrics (rng st))\<rparr>"
  note step = submit_answer_ok [where data = d and now_iso = t, OF Cons.prems(1) d(2) Cons.prems(2) Cons.prems(3)]
  show ?case
  proof (cases "?i + 1 = len (questions s)")
    case True
    then have "rest = []" using Cons.prems(4) by (cases rest) auto
    then show ?thesis using True step r d by (simp add: Let_def)
  next
    case False
    have st': "snd (submit_answer st json t) = ?st'" using step d by (simp add: Let_def)
    have resp: "interview_complete (fst (submit_answer st json t)) = Some False"
      using step d False by (simp add: Let_def)
    have look: "interview_sessions ?st' sid = Some ?s'" by simp
    have len_rest: "int (length rest) = len (questions ?s') - current_question ?s'"
      using Cons.prems(4) by simp
    have lt: "current_question ?s' < len (questions ?s')" using False Cons.prems(3) by simp
    have ge: "0 \<le> current_question ?s'" using Cons.prems(2) by simp
    have all: "\<forall>r \<in> set rest. \<exists>d. fst r = Some d \<and> d ''session_id'' = Some sid"
      using Cons.prems(5) by simp
    have IH: "map interview_complete (fst (submit_all ?st' rest)) =
           replicate (length rest - 1) (Some False) @ [Some True]"
      by (rule Cons.IH [OF look ge lt len_rest all])
    have ne: "rest \<noteq> []" using len_rest lt by auto
    then have rep: "replicate (length (r # rest) - 1) (Some False) = Some False # replicate (length rest - 1) (Some False)"
      by (cases rest) simp_all
    show ?thesis
      unfolding rep using IH resp st' r by (simp add: split_beta)
  qed
qed

section \<open>Basic facts about the report\<close>

lemma fl_threshold:
  assumes mono: "mono fl"
      and fx: "fl (real_of_int k) = real_of_int k"
               "fl (real_of_int k - 1 / 4) = real_of_int k - 1 / 4"
  shows "real_of_int k \<le> fl (real_of_int n / 3) \<longleftrightarrow> real_of_int k \<le> real_of_int n / 3"
proof
  assume "real_of_int k \<le> real_of_int n / 3"
  then have "fl (real_of_int k) \<le> fl (real_of_int n / 3)" using mono by (simp add: monoD)
  then show "real_of_int k \<le> fl (real_of_int n / 3)" using fx(1) by simp
next
  assume a: "real_of_int k \<le> fl (real_of_int n / 3)"
  show "real_of_int k \<le> real_of_int n / 3"
  proof (rule ccontr)
    assume "\<not> real_of_int k \<le> real_of_int n / 3"
    then have "real_of_int n < real_of_int (3 * k)" by simp
    then have "n < 3 * k" by (simp only: of_int_less_iff)
    then have "n \<le> 3 * k - 1" by simp
    then have "real_of_int n \<le> real_of_int (3 * k - 1)" by (simp only: of_int_le_iff)
    then have "real_of_int n / 3 \<le> real_of_int k - 1 / 4" by simp
    then have "fl (real_of_int n / 3) \<le> fl (real_of_int k - 1 / 4)" using mono by (simp add: monoD)
    then have "fl (real_of_int n / 3) < real_of_int k" using fx(2) by simp
    then show False using a by simp
  qed
qed

lemma assessment_rounded:
  assumes "mono fl"
      and "\<forall>t \<in> {70, 80, 90, 279 / 4, 319 / 4, 359 / 4}. fl t = t"
  shows "assessment (fl (real_of_int n / 3)) = assessment (real_of_int n / 3)"
proof -
  have t90: "(90 \<le> fl (real_of_int n / 3)) = (90 \<le> real_of_int n / 3)"
    using fl_threshold [OF assms(1), of 90 n] assms(2) by simp
  have t80: "(80 \<le> fl (real_of_int n / 3)) = (80 \<le> real_of_int n / 3)"
    using fl_threshold [OF assms(1), of 80 n] assms(2) by simp
  have t70: "(70 \<le> fl (real_of_int n / 3)) = (70 \<le> real_of_int n / 3)"
    using fl_threshold [OF assms(1), of 70 n] assms(2) by simp
  show ?thesis unfolding assessment_def t90 t80 t70 ..
qed

lemma avg_score_Inr:
  "avg_score fl m = Inr avg \<Longrightarrow>
     avg = fl (real_of_int (attention m + positivity m + confidence m) / 3)"
  by (auto simp: avg_score_def true_divide_def Let_def split: if_splits)

lemma generate_pdf_report_Inr:
  assumes "generate_pdf_report fl s = Inr story"
  shows "\<exists>avg. avg_score fl (metrics s) = Inr avg \<and>
           story =
             qa_loop 1 (answers s)
               [Paragraph ''AI Interview Report'' CustomTitle,
                Spacer 1 20,
                Paragraph (''<b>Job Role:</b> '' @ job_role s) Normal,
                Paragraph (''<b>Resume:</b> '' @ resume_filename s) Normal,
                Paragraph (''<b>Interview Date:</b> '' @ take 10 (start_time s)) Normal,
                Spacer 1 20,
                Paragraph ''<b>Performance Metrics:</b>'' Heading2,
                Table (metrics_table_data s),
                Spacer 1 20,
                Paragraph ''<b>Interview Questions & Answers:</b>'' Heading2]
             @ [Paragraph ''<b>Overall Assessment:</b>'' Heading2,
                Paragraph (assessment avg) Normal]"
  using assms by (auto simp: generate_pdf_report_def Let_def split: sum.splits)

lemma qa_loop_acc: "qa_loop i qs story = story @ qa_loop i qs []"
proof (induction qs arbitrary: i story)
  case Nil
  show ?case by simp
next
  case (Cons q qs)
  show ?case
    using Cons.IH [of "i + 1" "story @ [Paragraph (''<b>Question '' @ str_int i @ '':</b> '' @ question q) Normal,
         Paragraph (''<b>Answer:</b> '' @ answer q) Normal, Spacer 1 12]"]
      Cons.IH [of "i + 1" "[Paragraph (''<b>Question '' @ str_int i @ '':</b> '' @ question q) Normal,
         Paragraph (''<b>Answer:</b> '' @ answer q) Normal, Spacer 1 12]"]
    by simp
qed

lemma qa_loop_Cons:
  "qa_loop i (q # qs) [] =
     Paragraph (''<b>Question '' @ str_int i @ '':</b> '' @ question q) Normal #
     Paragraph (''<b>Answer:</b> '' @ answer q) Normal #
     Spacer 1 12 # qa_loop (i + 1) qs []"
  using qa_loop_acc [of "i + 1" qs "[Paragraph (''<b>Question '' @ str_int i @ '':</b> '' @ question q) Normal,
         Paragraph (''<b>Answer:</b> '' @ answer q) Normal, Spacer 1 12]"]
  by simp

lemma length_qa_loop: "length (qa_loop i qs []) = 3 * length qs"
  by (induction qs arbitrary: i) (simp_all add: qa_loop_Cons del: qa_loop.simps(2))

lemma tables_qa_loop: "tables (qa_loop i qs []) = []"
  by (induction qs arbitrary: i) (simp_all add: qa_loop_Cons del: qa_loop.simps(2))

lemma tables_append: "tables (xs @ ys) = tables xs @ tables ys"
  by (induction xs rule: tables.induct) simp_all

lemma nth_qa_loop:
  "j < length qs \<Longrightarrow>
     qa_loop i qs [] ! (3 * j) =
       Paragraph (''<b>Question '' @ str_int (i + int j) @ '':</b> '' @ question (qs ! j)) Normal \<and>
     qa_loop i qs [] ! (3 * j + 1) = Paragraph (''<b>Answer:</b> '' @ answer (qs ! j)) Normal \<and>
     qa_loop i qs [] ! (3 * j + 2) = Spacer 1 12"
proof (induction qs arbitrary: i j)
  case Nil
  then show ?case by simp
next
  case (Cons q qs)
  show ?case
  proof (cases j)
    case 0
    then show ?thesis by (simp add: qa_loop_Cons del: qa_loop.simps(2))
  next
    case (Suc k)
    then have k: "k < length qs" using Cons.prems by simp
    have idx: "3 * j = Suc (Suc (Suc (3 * k)))" using Suc by simp
    have eq: "i + 1 + int k = i + int j" using Suc by simp
    show ?thesis
      using Cons.IH [OF k, of "i + 1"] unfolding idx qa_loop_Cons eq
      by (simp add: Suc)
  qed
qed

section \<open>The handlers at the level of list objects refine the handlers by value\<close>

lemma start_interview_obj_Some:
  "start_interview_obj ost (Some data) resume now_stamp now_iso =
     (let sid = ''session_'' @ now_stamp @ ''_'' @ str_int (fst (randint 1000 9999 (obj_rng ost)));
          g1 = snd (randint 1000 9999 (obj_rng ost));
          s = \<lparr>job_role = get_default data ''job_role'' ''Unknown Role'',
               resume_filename =
                 (case resume of
                    None \<Rightarrow> ''No file uploaded''
                  | Some f \<Rightarrow> if f = [] then ''No file uploaded'' else f),
               start_time = now_iso,
               questions = next_free ost,
               answers = [],
               current_question = 0,
               metrics = fst (sample_metrics g1)\<rparr>;
          ost' = ost\<lparr>cells := (cells ost)(next_free ost := cells ost (bank_ref ost)),
                     next_free := Suc (next_free ost),
                     obj_sessions := (obj_sessions ost)(sid \<mapsto> s),
                     obj_current_session_id := Some sid,
                     obj_rng := snd (sample_metrics g1)\<rparr>
      in (case py_getitem (cells ost (bank_ref ost)) 0 of
            Inl e \<Rightarrow> (Failure (str_exc e), 500)
          | Inr q0 \<Rightarrow>
              (StartOk sid ''Interview session started successfully'' q0
                 (len (cells ost (bank_ref ost))), 200),
          ost'))"
proof -
  have same: "((cells ost)(next_free ost := cells ost (bank_ref ost))) (bank_ref ost) =
      cells ost (bank_ref ost)"
    by simp
  show ?thesis
    by (simp add: start_interview_obj_def list_copy_def Let_def split_beta same del: fun_upd_apply
        split: sum.splits)
qed


lemma obj_wfD:
  assumes "obj_wf ost"
  shows "bank_ref ost < next_free ost"
    and "cells ost (bank_ref ost) = INTERVIEW_QUESTIONS"
    and "obj_sessions ost sid = Some s \<Longrightarrow> questions s < next_free ost"
    and "obj_sessions ost sid = Some s \<Longrightarrow> questions s \<noteq> bank_ref ost"
    and "obj_sessions ost sid = Some s \<Longrightarrow> obj_sessions ost sid' = Some s' \<Longrightarrow> sid \<noteq> sid' \<Longrightarrow>
           questions s \<noteq> questions s'"
  using assms unfolding obj_wf_def by blast+

lemma start_interview_obj_wf:
  assumes "obj_wf ost"
  shows "obj_wf (snd (start_interview_obj ost json resume now_stamp now_iso))"
proof (cases json)
  case None
  then show ?thesis using assms by (simp add: start_interview_obj_def)
next
  case (Some data)
  define new where "new = ''session_'' @ now_stamp @ ''_'' @ str_int (fst (randint 1000 9999 (obj_rng ost)))"
  define ost' where "ost' = snd (start_interview_obj ost json resume now_stamp now_iso)"
  have nf: "next_free ost' = Suc (next_free ost)"
    and bk: "bank_ref ost' = bank_ref ost"
    and cs: "cells ost' = (cells ost)(next_free ost := cells ost (bank_ref ost))"
    and old: "\<And>sid. sid \<noteq> new \<Longrightarrow> obj_sessions ost' sid = obj_sessions ost sid"
    and nw: "map_option questions (obj_sessions ost' new) = Some (next_free ost)"
    unfolding ost'_def new_def Some start_interview_obj_Some by (simp_all add: Let_def)
  have ref: "questions s < Suc (next_free ost) \<and> questions s \<noteq> bank_ref ost"
    if "obj_sessions ost' sid = Some s" for sid s
  proof (cases "sid = new")
    case True
    then have "questions s = next_free ost" using nw that by simp
    then show ?thesis using obj_wfD(1) [OF assms] by simp
  next
    case False
    then have "obj_sessions ost sid = Some s" using old that by simp
    then show ?thesis using obj_wfD(3,4) [OF assms] by (simp add: less_Suc_eq)
  qed
  have apart: "questions s \<noteq> questions s'"
    if "obj_sessions ost' sid = Some s" "obj_sessions ost' sid' = Some s'" "sid \<noteq> sid'"
    for sid s sid' s'
  proof -
    consider "sid = new" | "sid' = new" | "sid \<noteq> new" "sid' \<noteq> new" by blast
    then show ?thesis
    proof cases
      case 1
      then have a: "questions s = next_free ost" using nw that(1) by simp
      have "obj_sessions ost sid' = Some s'" using old [of sid'] 1 that by simp
      then have "questions s' < next_free ost" by (rule obj_wfD(3) [OF assms])
      then show ?thesis using a by simp
    next
      case 2
      then have a: "questions s' = next_free ost" using nw that(2) by simp
      have "obj_sessions ost sid = Some s" using old [of sid] 2 that by simp
      then have "questions s < next_free ost" by (rule obj_wfD(3) [OF assms])
      then show ?thesis using a by simp
    next
      case 3
      then have "obj_sessions ost sid = Some s" "obj_sessions ost sid' = Some s'"
        using old that by simp_all
      then show ?thesis using that(3) by (rule obj_wfD(5) [OF assms])
    qed
  qed
  have "bank_ref ost' < next_free ost'" using obj_wfD(1) [OF assms] nf bk by simp
  moreover have "cells ost' (bank_ref ost') = INTERVIEW_QUESTIONS"
    using obj_wfD(1,2) [OF assms] cs bk by simp
  ultimately show ?thesis
    unfolding obj_wf_def ost'_def [symmetric] using ref apart nf bk by auto
qed

lemma submit_answer_obj_frame:
  "cells (snd (submit_answer_obj ost json now_iso)) = cells ost \<and>
   next_free (snd (submit_answer_obj ost json now_iso)) = next_free ost \<and>
   bank_ref (snd (submit_answer_obj ost json now_iso)) = bank_ref ost \<and>
   (\<forall>sid. map_option questions (obj_sessions (snd (submit_answer_obj ost json now_iso)) sid) =
          map_option questions (obj_sessions ost sid))"
  by (auto simp: submit_answer_obj_def Let_def split_beta split: option.splits sum.splits)

lemma submit_answer_obj_wf:
  assumes "obj_wf ost"
  shows "obj_wf (snd (submit_answer_obj ost json now_iso))"
proof -
  define ost' where "ost' = snd (submit_answer_obj ost json now_iso)"
  note fr = submit_answer_obj_frame [of ost json now_iso, folded ost'_def]
  have q: "\<exists>s0. obj_sessions ost sid = Some s0 \<and> questions s0 = questions s"
    if "obj_sessions ost' sid = Some s" for sid s
    using fr [THEN conjunct2, THEN conjunct2, THEN conjunct2, rule_format, of sid] that
    by (cases "obj_sessions ost sid") auto
  show ?thesis
    unfolding obj_wf_def ost'_def [symmetric]
    using fr obj_wfD [OF assms] by (metis q)
qed

lemma reachable_obj_wf: "reachable_obj ost \<Longrightarrow> obj_wf ost"
proof (induction rule: reachable_obj.induct)
  case (obj_initial bank nf cs g)
  then show ?case by (simp add: obj_wf_def)
next
  case (obj_start ost json resume now_stamp now_iso)
  then show ?case by (simp add: start_interview_obj_wf)
next
  case (obj_submit ost json now_iso)
  then show ?case by (simp add: submit_answer_obj_wf)
qed


lemma abs_state_sel:
  "interview_sessions (abs_state ost) sid = map_option (abs_session (cells ost)) (obj_sessions ost sid)"
  "current_session_id (abs_state ost) = obj_current_session_id ost"
  "rng (abs_state ost) = obj_rng ost"
  by (simp_all add: abs_state_def)

lemma abs_session_sel:
  "questions (abs_session cs s) = cs (questions s)"
  "answers (abs_session cs s) = answers s"
  "current_question (abs_session cs s) = current_question s"
  "metrics (abs_session cs s) = metrics s"
  by (simp_all add: abs_session_def)

lemma submit_answer_obj_abs:
  "submit_answer (abs_state ost) json now_iso =
     (fst (submit_answer_obj ost json now_iso), abs_state (snd (submit_answer_obj ost json now_iso)))"
proof (cases json)
  case None
  then show ?thesis by (simp add: submit_answer_def submit_answer_obj_def)
next
  case (Some data)
  show ?thesis
  proof (cases "data ''session_id''")
    case None
    then show ?thesis using Some by (simp add: submit_answer_def submit_answer_obj_def Let_def)
  next
    case tgt: (Some tgt)
    show ?thesis
    proof (cases "obj_sessions ost tgt")
      case None
      then show ?thesis using Some tgt
        by (simp add: submit_answer_def submit_answer_obj_def Let_def abs_state_sel)
    next
      case u: (Some u)
      show ?thesis
      proof (cases "py_getitem (cells ost (questions u)) (current_question u)")
        case (Inl e)
        then show ?thesis using Some tgt u
          by (simp add: submit_answer_def submit_answer_obj_def Let_def abs_state_sel abs_session_sel)
      next
        case (Inr q)
        have st: "abs_state
            (ost\<lparr>obj_sessions := (obj_sessions ost)(tgt \<mapsto> s'), obj_rng := g'\<rparr>) =
          (abs_state ost)\<lparr>interview_sessions :=
              (interview_sessions (abs_state ost))(tgt \<mapsto> abs_session (cells ost) s'),
            rng := g'\<rparr>" for s' g'
          by (simp add: abs_state_def fun_eq_iff)
        have upd: "abs_session cs (s\<lparr>answers := a, current_question := c, metrics := m\<rparr>) =
            (abs_session cs s)\<lparr>answers := a, current_question := c, metrics := m\<rparr>" for cs s a c m
          by (simp add: abs_session_def)
        show ?thesis using Some tgt u Inr
          by (simp add: submit_answer_def submit_answer_obj_def Let_def split_beta abs_state_sel
              abs_session_sel st upd split: sum.splits)
      qed
    qed
  qed
qed

lemma start_interview_obj_abs:
  assumes "obj_wf ost"
  shows "start_interview (abs_state ost) json resume now_stamp now_iso =
     (fst (start_interview_obj ost json resume now_stamp now_iso),
      abs_state (snd (start_interview_obj ost json resume now_stamp now_iso)))"
proof (cases json)
  case None
  then show ?thesis by (simp add: start_interview_def start_interview_obj_def)
next
  case (Some data)
  have keep: "map_option (abs_session ((cells ost)(next_free ost := INTERVIEW_QUESTIONS)))
                (obj_sessions ost sid) =
              map_option (abs_session (cells ost)) (obj_sessions ost sid)" for sid
  proof (cases "obj_sessions ost sid")
    case None
    then show ?thesis by simp
  next
    case (Some s)
    then have "questions s \<noteq> next_free ost" using obj_wfD(3) [OF assms, of sid s] by simp
    then show ?thesis using Some by (simp add: abs_session_def)
  qed
  have st: "abs_state
      (ost\<lparr>cells := (cells ost)(next_free ost := INTERVIEW_QUESTIONS),
           next_free := Suc (next_free ost),
           obj_sessions := (obj_sessions ost)(sid \<mapsto> s),
           obj_current_session_id := Some sid,
           obj_rng := g\<rparr>) =
      (abs_state ost)\<lparr>interview_sessions :=
          (interview_sessions (abs_state ost))
            (sid \<mapsto> abs_session ((cells ost)(next_free ost := INTERVIEW_QUESTIONS)) s),
        current_session_id := Some sid,
        rng := g\<rparr>" for sid s g
    by (simp add: abs_state_def fun_eq_iff keep)
  have new: "abs_session ((cells ost)(next_free ost := INTERVIEW_QUESTIONS))
      \<lparr>job_role = r, resume_filename = f, start_time = t, questions = next_free ost,
       answers = [], current_question = 0, metrics = m\<rparr> =
      \<lparr>job_role = r, resume_filename = f, start_time = t, questions = INTERVIEW_QUESTIONS,
       answers = [], current_question = 0, metrics = m\<rparr>" for r f t m
    by (simp add: abs_session_def)
  show ?thesis
    unfolding Some start_interview_Some start_interview_obj_Some
    by (simp add: Let_def obj_wfD(2) [OF assms] bank_first bank_len st new abs_state_sel
        del: fun_upd_apply)
qed


lemma reachable_has_objects: "reachable st \<Longrightarrow> \<exists>ost. reachable_obj ost \<and> abs_state ost = st"
proof (induction rule: reachable.induct)
  case (initial g)
  let ?o = "\<lparr>cells = (\<lambda>_. INTERVIEW_QUESTIONS), next_free = Suc 0, bank_ref = 0,
             obj_sessions = Map.empty, obj_current_session_id = None, obj_rng = g\<rparr>"
  have "reachable_obj ?o" by (rule reachable_obj.obj_initial) simp_all
  moreover have "abs_state ?o = \<lparr>interview_sessions = Map.empty, current_session_id = None, rng = g\<rparr>"
    by (simp add: abs_state_def)
  ultimately show ?case by blast
next
  case (start st json resume now_stamp now_iso)
  then obtain ost where o: "reachable_obj ost" "abs_state ost = st" by blast
  have "abs_state (snd (start_interview_obj ost json resume now_stamp now_iso)) =
        snd (start_interview st json resume now_stamp now_iso)"
    using start_interview_obj_abs [OF reachable_obj_wf [OF o(1)]] o(2) by simp
  then show ?case using reachable_obj.obj_start [OF o(1)] by blast
next
  case (submit st json now_iso)
  then obtain ost where o: "reachable_obj ost" "abs_state ost = st" by blast
  have "abs_state (snd (submit_answer_obj ost json now_iso)) = snd (submit_answer st json now_iso)"
    using submit_answer_obj_abs [of ost] o(2) by simp
  then show ?case using reachable_obj.obj_submit [OF o(1)] by blast
next
  case (report st fl arg)
  then show ?case by (simp add: get_report_state)
next
  case (metrics st arg)
  then show ?case by (simp add: get_metrics_state)
qed

section \<open>The example runs, evaluated\<close>

lemma str_int_1007: "str_int 1007 = ''1007''"
  by (simp add: str_int_def str_nat.simps digit_char_def)

lemma str_int_1003: "str_int 1003 = ''1003''"
  by (simp add: str_int_def str_nat.simps digit_char_def)

lemma str_int_small: "str_int 1 = ''1''" "str_int 2 = ''2''" "str_int 3 = ''3''" "str_int 77 = ''77''"
  by (simp_all add: str_int_def str_nat.simps digit_char_def)

lemma randint_sconst: "randint a b (sconst r) = (a + int (r mod nat (b - a + 1)), sconst r)"
  by (simp add: randint_def)

lemma sample_metrics_sconst7: "sample_metrics (sconst 7) = (ex_metrics, sconst 7)"
  by (simp add: sample_metrics_def randint_sconst ex_metrics_def)

lemma ex_start:
  "start_interview ex_init (Some [''job_role'' \<mapsto> ''Backend Engineer'']) None
     ''20240101_120000'' ''2024-01-01T12:00:00'' =
   ((StartOk ex_sid ''Interview session started successfully'' (INTERVIEW_QUESTIONS ! 0) 3, 200),
    ex_state [] 0)"
  by (simp add: start_interview_Some Let_def ex_init_def randint_sconst str_int_1007
      sample_metrics_sconst7 ex_sid_def ex_state_def ex_session_def get_default_def)

lemma ex_reachable0: "reachable (ex_state [] 0)"
  using reachable.start [OF reachable.initial, of "sconst 7" "Some [''job_role'' \<mapsto> ''Backend Engineer'']" None
     "''20240101_120000''" "''2024-01-01T12:00:00''"]
  by (simp add: ex_start ex_init_def [symmetric])

lemma ex_lookup: "interview_sessions (ex_state as i) ex_sid = Some (ex_session as i)"
  by (simp add: ex_state_def)

lemma ex_submit_step:
  assumes "0 \<le> i" and "i < 3"
  shows "submit_answer (ex_state as i) (ex_submit a) t =
           (if i + 1 = 3
            then (Complete ''Interview completed successfully'' ex_metrics 3 (len as + 1), 200)
            else (NextQuestion (INTERVIEW_QUESTIONS ! nat (i + 1)) (i + 2) 3 ex_metrics, 200),
            ex_state (as @ [ex_answer (nat i) a t]) (i + 1))"
proof -
  have lt: "current_question (ex_session as i) < len (questions (ex_session as i))"
    using assms by (simp add: ex_session_def bank_len)
  have ge: "0 \<le> current_question (ex_session as i)"
    using assms by (simp add: ex_session_def)
  have sid: "([''answer'' \<mapsto> a](''session_id'' \<mapsto> ex_sid)) ''session_id'' = Some ex_sid" by simp
  show ?thesis
    unfolding ex_submit_def submit_answer_ok [where data = "[''answer'' \<mapsto> a](''session_id'' \<mapsto> ex_sid)", OF ex_lookup sid ge lt]
    by (simp add: Let_def ex_state_def ex_session_def bank_len sample_metrics_sconst7
        ex_answer_def get_default_def)
qed

lemma ex_reachable1:
  "reachable (ex_state [ex_answer 0 ''I have 5 years of experience'' ''2024-01-01T12:01:00''] 1)"
  using reachable.submit [OF ex_reachable0, of "ex_submit ''I have 5 years of experience''" "''2024-01-01T12:01:00''"]
  by (simp add: ex_submit_step)



lemma ex_report_last:
  assumes "\<bar>real_of_int (a + p + c) / 3\<bar> < 1000"
  shows "\<exists>story. generate_pdf_report (\<lambda>x. x) (ex_scored a p c) = Inr story"
proof -
  have "\<not> dbl_overflow \<le> \<bar>real_of_int (a + p + c) / 3\<bar>"
  proof -
    have "(1000::real) \<le> 2 ^ 970" by simp
    then have "(1000::real) \<le> dbl_overflow" unfolding dbl_overflow_def by simp
    then show ?thesis using assms by linarith
  qed
  then show ?thesis
    by (simp add: generate_pdf_report_def Let_def avg_score_def true_divide_def ex_scored_def)
qed

lemma ctr_lookup: "interview_sessions (ctr_state as i a p c k) ctr_sid = Some (ctr_session as i a p c)"
  by (simp add: ctr_state_def)

lemma ctr_sel:
  "questions (ctr_session as i a p c) = INTERVIEW_QUESTIONS"
  "answers (ctr_session as i a p c) = as"
  "current_question (ctr_session as i a p c) = i"
  by (simp_all add: ctr_session_def)

lemma ctr_bounds:
  "0 \<le> i \<Longrightarrow> i < 3 \<Longrightarrow>
     0 \<le> current_question (ctr_session as i a p c) \<and>
     current_question (ctr_session as i a p c) < len (questions (ctr_session as i a p c))"
  by (simp add: ctr_session_def bank_len)



section \<open>Session creation\<close>

text \<open>
  C6. Every call of \<^verbatim>\<open>start_interview\<close> that creates a session (its request carries a
  JSON object) answers 200 with the first question equal to element 0 of the question
  bank and \<^verbatim>\<open>total_questions\<close> equal to the bank's length, which is 3. The record it
  stores under the new identifier has cursor 0, no answers, a copy of the bank as its
  questions, and metrics sampled by this very call: the identifier takes the
  generator's next draw, the three metrics take the three draws after it, each mapped
  into 70..95, and the generator is left four draws further on.
\<close>

theorem start_interview_first_question:
  "(let g = rng st;
        sid = ''session_'' @ now_stamp @ ''_'' @ str_int (1000 + int (shd g mod 9000));
        r = start_interview st (Some data) resume now_stamp now_iso
    in fst r = (StartOk sid ''Interview session started successfully''
                  (INTERVIEW_QUESTIONS ! 0) (len INTERVIEW_QUESTIONS), 200) \<and>
       INTERVIEW_QUESTIONS ! 0 =
         ''Can you walk me through your experience with the technologies mentioned in your resume?'' \<and>
       len INTERVIEW_QUESTIONS = 3 \<and>
       interview_sessions (snd r) sid =
         Some \<lparr>job_role = get_default data ''job_role'' ''Unknown Role'',
               resume_filename =
                 (case resume of
                    None \<Rightarrow> ''No file uploaded''
                  | Some f \<Rightarrow> if f = [] then ''No file uploaded'' else f),
               start_time = now_iso,
               questions = INTERVIEW_QUESTIONS,
               answers = [],
               current_question = 0,
               metrics =
                 \<lparr>attention = 70 + int (shd (stl g) mod 26),
                  positivity = 70 + int (shd (stl (stl g)) mod 26),
                  confidence = 70 + int (shd (stl (stl (stl g))) mod 26)\<rparr>\<rparr> \<and>
       current_session_id (snd r) = Some sid \<and>
       rng (snd r) = stl (stl (stl (stl g))))"
proof -
  have q0: "INTERVIEW_QUESTIONS ! 0 =
      ''Can you walk me through your experience with the technologies mentioned in your resume?''"
    by (simp add: INTERVIEW_QUESTIONS_def)
  show ?thesis
    by (simp add: start_interview_Some Let_def bank_len sample_metrics_draws randint_def q0)
qed

theorem start_interview_first_question_witness:
  "start_interview ctr_init (Some [''job_role'' \<mapsto> ''Backend Engineer'']) None
          ''20240101_120000'' ''2024-01-01T12:00:00'' =
     ((StartOk ''session_20240101_120000_1003'' ''Interview session started successfully''
        ''Can you walk me through your experience with the technologies mentioned in your resume?'' 3,
       200),
      ctr_state [] 0 74 75 76 7) \<and>
   fst (start_interview (ctr_state [] 0 74 75 76 7) (Some Map.empty) (Some ''cv.pdf'')
          ''20240101_120005'' ''2024-01-01T12:00:05'') =
     (StartOk ''session_20240101_120005_1007'' ''Interview session started successfully''
        ''Can you walk me through your experience with the technologies mentioned in your resume?'' 3,
      200) \<and>
   interview_sessions
     (snd (start_interview (ctr_state [] 0 74 75 76 7) (Some Map.empty) (Some ''cv.pdf'')
          ''20240101_120005'' ''2024-01-01T12:00:05''))
     ''session_20240101_120005_1007'' =
     Some \<lparr>job_role = ''Unknown Role'', resume_filename = ''cv.pdf'',
           start_time = ''2024-01-01T12:00:05'', questions = INTERVIEW_QUESTIONS,
           answers = [], current_question = 0,
           metrics = \<lparr>attention = 78, positivity = 79, confidence = 80\<rparr>\<rparr>"
proof -
  note first = start_interview_first_question [of ctr_init "''20240101_120000''"
      "[''job_role'' \<mapsto> ''Backend Engineer'']" None "''2024-01-01T12:00:00''"]
  note second = start_interview_first_question [of "ctr_state [] 0 74 75 76 7" "''20240101_120005''"
      Map.empty "Some ''cv.pdf''" "''2024-01-01T12:00:05''"]
  have a: "start_interview ctr_init (Some [''job_role'' \<mapsto> ''Backend Engineer'']) None
          ''20240101_120000'' ''2024-01-01T12:00:00'' =
     ((StartOk ''session_20240101_120000_1003'' ''Interview session started successfully''
        ''Can you walk me through your experience with the technologies mentioned in your resume?'' 3,
       200),
      ctr_state [] 0 74 75 76 7)"
    using first
    by (simp add: Let_def start_interview_Some ctr_init_def ctr_state_def ctr_session_def ctr_sid_def
        str_int_1003 sample_metrics_draws randint_def get_default_def INTERVIEW_QUESTIONS_def)
  show ?thesis
    using a second
    by (simp add: Let_def ctr_state_def str_int_1007 get_default_def bank_len)
qed

section \<open>Submitting answers\<close>

text \<open>
  C1. For a session whose cursor \<open>i\<close> is below the number \<open>N\<close> of its questions, a submit
  appends the record of question \<open>i\<close>, the answer text and the timestamp, sets the
  cursor to \<open>i + 1\<close>, replaces the metrics by a new sample (the generator's next three
  draws, each mapped into 70..95, leaving the generator three draws further on), and
  reports completion exactly when \<open>i + 1 = N\<close>; otherwise it reports question \<open>i + 1\<close>
  as the next one, with the 1-based number \<open>i + 2\<close>. Hence, of the \<open>N - i\<close> submits
  that remain, all but the last report \<^verbatim>\<open>interview_complete = False\<close> and the last
  reports \<^verbatim>\<open>True\<close>: a fresh session completes on the \<open>N\<close>-th submit and not before.
\<close>

theorem submit_answer_advances:
  assumes "interview_sessions st sid = Some s"
      and "0 \<le> current_question s"
      and "current_question s < len (questions s)"
  shows "(let i = current_question s;
              N = len (questions s);
              g = rng st;
              m = \<lparr>attention = 70 + int (shd g mod 26),
                   positivity = 70 + int (shd (stl g) mod 26),
                   confidence = 70 + int (shd (stl (stl g)) mod 26)\<rparr>;
              s' = s\<lparr>answers := answers s @
                        [\<lparr>question = questions s ! nat i,
                          answer = get_default data ''answer'' [],
                          timestamp = now_iso\<rparr>],
                     current_question := i + 1,
                     metrics := m\<rparr>;
              st' = st\<lparr>interview_sessions := (interview_sessions st)(sid \<mapsto> s'),
                       rng := stl (stl (stl g))\<rparr>
          in submit_answer st (Some (data(''session_id'' \<mapsto> sid))) now_iso =
               (if i + 1 = N
                then (Complete ''Interview completed successfully'' m N (len (answers s) + 1), 200)
                else (NextQuestion (questions s ! nat (i + 1)) (i + 2) N m, 200),
                st')) \<and>
         (\<forall>reqs. int (length reqs) = len (questions s) - current_question s \<and>
                 (\<forall>r \<in> set reqs. \<exists>d. fst r = Some d \<and> d ''session_id'' = Some sid) \<longrightarrow>
                 map interview_complete (fst (submit_all st reqs)) =
                   replicate (length reqs - 1) (Some False) @ [Some True])"
proof -
  have sid: "(data(''session_id'' \<mapsto> sid)) ''session_id'' = Some sid" by simp
  have g: "get_default (data(''session_id'' \<mapsto> sid)) ''answer'' [] = get_default data ''answer'' []"
    by (simp add: get_default_def)
  have one: "submit_answer st (Some (data(''session_id'' \<mapsto> sid))) now_iso =
     (let i = current_question s;
          m = fst (sample_metrics (rng st));
          s' = s\<lparr>answers := answers s @
                    [\<lparr>question = questions s ! nat i,
                      answer = get_default data ''answer'' [],
                      timestamp = now_iso\<rparr>],
                 current_question := i + 1,
                 metrics := m\<rparr>;
          st' = st\<lparr>interview_sessions := (interview_sessions st)(sid \<mapsto> s'),
                   rng := snd (sample_metrics (rng st))\<rparr>
      in (if i + 1 = len (questions s)
          then (Complete ''Interview completed successfully'' m (len (questions s)) (len (answers s) + 1), 200)
          else (NextQuestion (questions s ! nat (i + 1)) (i + 2) (len (questions s)) m, 200), st'))"
    using submit_answer_ok [where data = "data(''session_id'' \<mapsto> sid)" and now_iso = now_iso,
        OF assms(1) sid assms(2) assms(3)]
    unfolding g .
  have many: "\<forall>reqs. int (length reqs) = len (questions s) - current_question s \<and>
                 (\<forall>r \<in> set reqs. \<exists>d. fst r = Some d \<and> d ''session_id'' = Some sid) \<longrightarrow>
                 map interview_complete (fst (submit_all st reqs)) =
                   replicate (length reqs - 1) (Some False) @ [Some True]"
    using submit_all_completes [OF assms] by blast
  show ?thesis using one many by (simp add: Let_def sample_metrics_draws)
qed

theorem submit_answer_advances_witness:
  "submit_answer (ctr_state [] 0 74 75 76 7) (Some (ctr_submit ''I have 5 years of experience''))
      ''2024-01-01T12:01:00'' =
     ((NextQuestion ''Describe a challenging project you worked on and how you overcame obstacles.''
         2 3 \<lparr>attention = 77, positivity = 78, confidence = 79\<rparr>, 200),
      ctr_state [ex_answer 0 ''I have 5 years of experience'' ''2024-01-01T12:01:00''] 1 77 78 79 10) \<and>
   submit_answer
      (ctr_state [ex_answer 0 ''I have 5 years of experience'' ''2024-01-01T12:01:00'',
                  ex_answer 1 ''We migrated a billing system'' ''2024-01-01T12:02:00''] 2 80 81 82 13)
      (Some (ctr_submit ''I listen first'')) ''2024-01-01T12:03:00'' =
     ((Complete ''Interview completed successfully''
         \<lparr>attention = 83, positivity = 84, confidence = 85\<rparr> 3 3, 200),
      ctr_state ex_answers 3 83 84 85 16) \<and>
   map interview_complete
     (fst (submit_all (ctr_state [] 0 74 75 76 7)
        [(Some (ctr_submit ''I have 5 years of experience''), ''2024-01-01T12:01:00''),
         (Some (ctr_submit ''We migrated a billing system''), ''2024-01-01T12:02:00''),
         (Some (ctr_submit ''I listen first''), ''2024-01-01T12:03:00'')])) =
     [Some False, Some False, Some True]"
proof -
  note b0 = ctr_bounds [of 0 "[]" 74 75 76]
  note first = submit_answer_advances [OF ctr_lookup b0 [THEN conjunct1] b0 [THEN conjunct2],
      of 7 "[''answer'' \<mapsto> ''I have 5 years of experience'']" "''2024-01-01T12:01:00''"]
  let ?as2 = "[ex_answer 0 ''I have 5 years of experience'' ''2024-01-01T12:01:00'',
               ex_answer 1 ''We migrated a billing system'' ''2024-01-01T12:02:00'']"
  note b2 = ctr_bounds [of 2 ?as2 80 81 82]
  note third = submit_answer_advances [OF ctr_lookup b2 [THEN conjunct1] b2 [THEN conjunct2],
      of 13 "[''answer'' \<mapsto> ''I listen first'']" "''2024-01-01T12:03:00''"]
  let ?reqs = "[(Some (ctr_submit ''I have 5 years of experience''), ''2024-01-01T12:01:00''),
         (Some (ctr_submit ''We migrated a billing system''), ''2024-01-01T12:02:00''),
         (Some (ctr_submit ''I listen first''), ''2024-01-01T12:03:00'')]"
  have run: "map interview_complete (fst (submit_all (ctr_state [] 0 74 75 76 7) ?reqs)) =
       replicate (length ?reqs - 1) (Some False) @ [Some True]"
    using first [THEN conjunct2, rule_format, of ?reqs]
    by (simp add: ctr_submit_def ctr_sel bank_len)
  have s1: "submit_answer (ctr_state [] 0 74 75 76 7) (Some (ctr_submit ''I have 5 years of experience''))
      ''2024-01-01T12:01:00'' =
     ((NextQuestion ''Describe a challenging project you worked on and how you overcame obstacles.''
         2 3 \<lparr>attention = 77, positivity = 78, confidence = 79\<rparr>, 200),
      ctr_state [ex_answer 0 ''I have 5 years of experience'' ''2024-01-01T12:01:00''] 1 77 78 79 10)"
    using first [THEN conjunct1]
    by (simp add: Let_def ctr_sel bank_len bank_nth ctr_submit_def get_default_def ex_answer_def)
      (simp add: ctr_state_def ctr_session_def)
  have len2: "len [x, y] = 2" for x y :: answer_t by (simp add: len_def)
  have s3: "submit_answer (ctr_state ?as2 2 80 81 82 13)
      (Some (ctr_submit ''I listen first'')) ''2024-01-01T12:03:00'' =
     ((Complete ''Interview completed successfully''
         \<lparr>attention = 83, positivity = 84, confidence = 85\<rparr> 3 3, 200),
      ctr_state ex_answers 3 83 84 85 16)"
    using third [THEN conjunct1]
    by (simp add: Let_def ctr_sel bank_len bank_nth ctr_submit_def get_default_def ex_answer_def
        ex_answers_def len2)
      (simp add: ctr_state_def ctr_session_def)
  show ?thesis using run s1 s3 by (simp add: numeral_2_eq_2)
qed

section \<open>Invariants of the store\<close>

text \<open>
  C2. In every reachable state, every stored session has as many recorded answers as
  its cursor says: \<^verbatim>\<open>len(answers) == current_question\<close>.
\<close>

theorem answers_length_is_cursor:
  assumes "reachable st" and "interview_sessions st sid = Some s"
  shows "len (answers s) = current_question s"
  using reachable_inv [OF assms(1)] assms(2) by (auto simp: state_inv_def session_inv_def)

theorem answers_length_is_cursor_witness:
  "reachable (ex_state [ex_answer 0 ''I have 5 years of experience'' ''2024-01-01T12:01:00''] 1) \<and>
   interview_sessions (ex_state [ex_answer 0 ''I have 5 years of experience'' ''2024-01-01T12:01:00''] 1) ex_sid
     = Some (ex_session [ex_answer 0 ''I have 5 years of experience'' ''2024-01-01T12:01:00''] 1) \<and>
   len (answers (ex_session [ex_answer 0 ''I have 5 years of experience'' ''2024-01-01T12:01:00''] 1)) = 1"
  using answers_length_is_cursor [OF ex_reachable1 ex_lookup] ex_reachable1
  by (simp add: ex_lookup ex_session_def)

text \<open>
  C4. In every reachable state, each of the three metrics of every stored session is
  an integer between 70 and 95, both included.
\<close>

theorem metrics_within_70_95:
  assumes "reachable st" and "interview_sessions st sid = Some s"
  shows "70 \<le> attention (metrics s) \<and> attention (metrics s) \<le> 95 \<and>
         70 \<le> positivity (metrics s) \<and> positivity (metrics s) \<le> 95 \<and>
         70 \<le> confidence (metrics s) \<and> confidence (metrics s) \<le> 95"
  using reachable_inv [OF assms(1)] assms(2)
  by (auto simp: state_inv_def session_inv_def metrics_in_range_def)

theorem metrics_within_70_95_witness:
  "reachable (ex_state [ex_answer 0 ''I have 5 years of experience'' ''2024-01-01T12:01:00''] 1) \<and>
   interview_sessions (ex_state [ex_answer 0 ''I have 5 years of experience'' ''2024-01-01T12:01:00''] 1) ex_sid
     = Some (ex_session [ex_answer 0 ''I have 5 years of experience'' ''2024-01-01T12:01:00''] 1) \<and>
   metrics (ex_session [ex_answer 0 ''I have 5 years of experience'' ''2024-01-01T12:01:00''] 1)
     = \<lparr>attention = 77, positivity = 77, confidence = 77\<rparr>"
  using metrics_within_70_95 [OF ex_reachable1 ex_lookup] ex_reachable1
  by (simp add: ex_lookup ex_session_def ex_metrics_def)

section \<open>The cursor\<close>




section \<open>Error outcomes\<close>

text \<open>
  C7. For a session identifier that is not a key of the store, \<^verbatim>\<open>submit_answer\<close>,
  \<^verbatim>\<open>get_metrics\<close> and \<^verbatim>\<open>get_report\<close> each answer with the error string
  "Invalid session ID" and status 400, and the state they leave is the state they found.
\<close>

theorem unknown_session_is_rejected:
  assumes "interview_sessions st sid = None"
  shows "submit_answer st (Some (data(''session_id'' \<mapsto> sid))) now_iso =
           ((Failure ''Invalid session ID'', 400), st) \<and>
         get_metrics st (Some sid) = ((Failure ''Invalid session ID'', 400), st) \<and>
         get_report fl st (Some sid) = ((Failure ''Invalid session ID'', 400), st)"
  using assms
  by (simp add: submit_answer_unknown get_metrics_def get_report_def lookup_arg_def)

theorem unknown_session_is_rejected_witness:
  "interview_sessions (ex_state [] 0) ''session_20240101_120000_9999'' = None \<and>
   submit_answer (ex_state [] 0)
      (Some ([''answer'' \<mapsto> ''hello''](''session_id'' \<mapsto> ''session_20240101_120000_9999'')))
      ''2024-01-01T12:01:00'' = ((Failure ''Invalid session ID'', 400), ex_state [] 0) \<and>
   get_metrics (ex_state [] 0) (Some ''session_20240101_120000_9999'')
      = ((Failure ''Invalid session ID'', 400), ex_state [] 0) \<and>
   get_report (\<lambda>x. x) (ex_state [] 0) (Some ''session_20240101_120000_9999'')
      = ((Failure ''Invalid session ID'', 400), ex_state [] 0)"
proof -
  have none: "interview_sessions (ex_state [] 0) ''session_20240101_120000_9999'' = None"
    by (simp add: ex_state_def ex_sid_def)
  show ?thesis
    using none unknown_session_is_rejected [OF none, of "[''answer'' \<mapsto> ''hello'']" "''2024-01-01T12:01:00''" "\<lambda>x. x"]
    by simp
qed

text \<open>
  C10. When the cursor of a session already equals the length of its questions, a
  further \<^verbatim>\<open>submit_answer\<close> answers with an error (the IndexError of the question lookup,
  status 500) and changes nothing: the lookup is evaluated before the append, the
  increment and the resampling, so the state returned is the state given.
\<close>

theorem submit_when_complete_changes_nothing:
  assumes "interview_sessions st sid = Some s"
      and "current_question s = len (questions s)"
  shows "submit_answer st (Some (data(''session_id'' \<mapsto> sid))) now_iso =
           ((Failure ''list index out of range'', 500), st)"
  using assms by (rule submit_answer_complete)

theorem submit_when_complete_changes_nothing_witness:
  "interview_sessions (ex_state ex_answers 3) ex_sid = Some (ex_session ex_answers 3) \<and>
   current_question (ex_session ex_answers 3) = len (questions (ex_session ex_answers 3)) \<and>
   submit_answer (ex_state ex_answers 3) (ex_submit ''one more'') ''2024-01-01T12:09:00'' =
     ((Failure ''list index out of range'', 500), ex_state ex_answers 3)"
proof -
  have c: "current_question (ex_session ex_answers 3) = len (questions (ex_session ex_answers 3))"
    by (simp add: ex_session_def bank_len)
  show ?thesis
    using c submit_when_complete_changes_nothing [OF ex_lookup c, of "[''answer'' \<mapsto> ''one more'']" "''2024-01-01T12:09:00''"]
    by (simp add: ex_lookup ex_submit_def)
qed

section \<open>The contents of a report\<close>

text \<open>
  C5. The closing sentence of a report is decided by the arithmetic mean of the three
  metrics alone, with the thresholds taken exactly: a mean of 90 or more gives the
  "Excellent" sentence, a mean from 80 up to but not including 90 the "Good" one, a
  mean from 70 up to but not including 80 the "Fair" one, and a mean below 70 the
  "Needs improvement" one. The source compares the rounded quotient of the float
  division; the theorem is about the exact mean, for any rounding that is monotone
  and leaves the six values 69.75, 70, 79.75, 80, 89.75, 90 as they are (all six are
  binary64 numbers).
\<close>

theorem assessment_by_mean:
  assumes "mono fl"
      and "\<forall>t \<in> {70, 80, 90, 279 / 4, 319 / 4, 359 / 4}. fl t = t"
      and "generate_pdf_report fl s = Inr story"
  shows "(let mean = real_of_int (attention (metrics s) + positivity (metrics s) +
                                  confidence (metrics s)) / 3
          in (90 \<le> mean \<longrightarrow> last story = Paragraph
                ''Excellent performance! The candidate demonstrated strong communication skills and relevant experience.''
                Normal) \<and>
             (80 \<le> mean \<and> mean < 90 \<longrightarrow> last story = Paragraph
                ''Good performance! The candidate showed solid understanding and relevant experience.''
                Normal) \<and>
             (70 \<le> mean \<and> mean < 80 \<longrightarrow> last story = Paragraph
                ''Fair performance. The candidate has potential but could benefit from more practice.''
                Normal) \<and>
             (mean < 70 \<longrightarrow> last story = Paragraph
                ''Needs improvement. The candidate should focus on providing more detailed and specific examples.''
                Normal))"
proof -
  obtain avg where avg: "avg_score fl (metrics s) = Inr avg"
    and story: "last story = Paragraph (assessment avg) Normal"
    using generate_pdf_report_Inr [OF assms(3)] by auto
  have "assessment avg =
          assessment (real_of_int (attention (metrics s) + positivity (metrics s) +
                                   confidence (metrics s)) / 3)"
    unfolding avg_score_Inr [OF avg] by (rule assessment_rounded [OF assms(1) assms(2)])
  then show ?thesis unfolding story Let_def by (simp add: assessment_def)
qed

theorem assessment_by_mean_witness:
  "closing (generate_pdf_report (\<lambda>x. x) (ex_scored 90 90 90)) = Some (Paragraph
     ''Excellent performance! The candidate demonstrated strong communication skills and relevant experience.''
     Normal) \<and>
   closing (generate_pdf_report (\<lambda>x. x) (ex_scored 90 90 89)) = Some (Paragraph
     ''Good performance! The candidate showed solid understanding and relevant experience.''
     Normal) \<and>
   closing (generate_pdf_report (\<lambda>x. x) (ex_scored 80 80 80)) = Some (Paragraph
     ''Good performance! The candidate showed solid understanding and relevant experience.''
     Normal) \<and>
   closing (generate_pdf_report (\<lambda>x. x) (ex_scored 80 80 79)) = Some (Paragraph
     ''Fair performance. The candidate has potential but could benefit from more practice.''
     Normal) \<and>
   closing (generate_pdf_report (\<lambda>x. x) (ex_scored 70 70 70)) = Some (Paragraph
     ''Fair performance. The candidate has potential but could benefit from more practice.''
     Normal) \<and>
   closing (generate_pdf_report (\<lambda>x. x) (ex_scored 70 70 69)) = Some (Paragraph
     ''Needs improvement. The candidate should focus on providing more detailed and specific examples.''
     Normal)"
proof -
  have m: "mono (\<lambda>x::real. x)" by (simp add: mono_def)
  have f: "\<forall>t \<in> {70, 80, 90, 279 / 4, 319 / 4, 359 / 4}. (\<lambda>x::real. x) t = t" by simp
  have inst: "closing (generate_pdf_report (\<lambda>x. x) (ex_scored a p c)) =
      Some (Paragraph (assessment (real_of_int (a + p + c) / 3)) Normal)"
    if bound: "\<bar>real_of_int (a + p + c) / 3\<bar> < 1000" for a p c
  proof -
    obtain story where st: "generate_pdf_report (\<lambda>x. x) (ex_scored a p c) = Inr story"
      using ex_report_last [OF bound] by auto
    have ms: "attention (metrics (ex_scored a p c)) = a"
        "positivity (metrics (ex_scored a p c)) = p"
        "confidence (metrics (ex_scored a p c)) = c"
      by (simp_all add: ex_scored_def)
    have "last story = Paragraph (assessment (real_of_int (a + p + c) / 3)) Normal"
      using assessment_by_mean [OF m f st] unfolding Let_def ms
      by (auto simp: assessment_def)
    then show ?thesis by (simp add: st closing_def)
  qed
  show ?thesis
    by (simp add: inst assessment_def)
qed

text \<open>
  C8. The report of a session with \<open>k\<close> recorded answers is a story of \<open>12 + 3k\<close>
  flowables: ten leading ones, among them the one table of the story, whose rows are
  the header "Metric", "Score" and three metric rows with the value written as a
  decimal integer followed by a percent sign; then, for each recorded answer in the
  order of submission, its question line numbered from 1, its answer line and a
  spacer; then the assessment heading and sentence. So it holds exactly \<open>k\<close>
  question and answer pairs, in order.
\<close>

theorem report_lists_every_answer:
  assumes "generate_pdf_report fl s = Inr story"
  shows "length story = 12 + 3 * length (answers s) \<and>
         take 10 story =
           [Paragraph ''AI Interview Report'' CustomTitle,
            Spacer 1 20,
            Paragraph (''<b>Job Role:</b> '' @ job_role s) Normal,
            Paragraph (''<b>Resume:</b> '' @ resume_filename s) Normal,
            Paragraph (''<b>Interview Date:</b> '' @ take 10 (start_time s)) Normal,
            Spacer 1 20,
            Paragraph ''<b>Performance Metrics:</b>'' Heading2,
            Table [[''Metric'', ''Score''],
                   [''Attention'', str_int (attention (metrics s)) @ ''%''],
                   [''Positivity'', str_int (positivity (metrics s)) @ ''%''],
                   [''Confidence'', str_int (confidence (metrics s)) @ ''%'']],
            Spacer 1 20,
            Paragraph ''<b>Interview Questions & Answers:</b>'' Heading2] \<and>
         (\<forall>j < length (answers s).
            story ! (10 + 3 * j) =
              Paragraph (''<b>Question '' @ str_int (int j + 1) @ '':</b> '' @
                         question (answers s ! j)) Normal \<and>
            story ! (10 + 3 * j + 1) =
              Paragraph (''<b>Answer:</b> '' @ answer (answers s ! j)) Normal \<and>
            story ! (10 + 3 * j + 2) = Spacer 1 12) \<and>
         story ! (10 + 3 * length (answers s)) =
           Paragraph ''<b>Overall Assessment:</b>'' Heading2 \<and>
         (\<exists>avg. story ! (11 + 3 * length (answers s)) = Paragraph (assessment avg) Normal) \<and>
         tables story =
           [[[''Metric'', ''Score''],
             [''Attention'', str_int (attention (metrics s)) @ ''%''],
             [''Positivity'', str_int (positivity (metrics s)) @ ''%''],
             [''Confidence'', str_int (confidence (metrics s)) @ ''%'']]]"
proof -
  let ?head = "[Paragraph ''AI Interview Report'' CustomTitle,
            Spacer 1 20,
            Paragraph (''<b>Job Role:</b> '' @ job_role s) Normal,
            Paragraph (''<b>Resume:</b> '' @ resume_filename s) Normal,
            Paragraph (''<b>Interview Date:</b> '' @ take 10 (start_time s)) Normal,
            Spacer 1 20,
            Paragraph ''<b>Performance Metrics:</b>'' Heading2,
            Table (metrics_table_data s),
            Spacer 1 20,
            Paragraph ''<b>Interview Questions & Answers:</b>'' Heading2]"
  let ?qa = "qa_loop 1 (answers s) []"
  obtain avg where story:
    "story = ?head @ ?qa @ [Paragraph ''<b>Overall Assessment:</b>'' Heading2,
                           Paragraph (assessment avg) Normal]"
    using generate_pdf_report_Inr [OF assms] qa_loop_acc [of 1 "answers s" ?head] by auto
  have lh: "length ?head = 10" by simp
  have lq: "length ?qa = 3 * length (answers s)" by (rule length_qa_loop)
  have len: "length story = 12 + 3 * length (answers s)"
    unfolding story by (simp add: lq)
  have hd: "take 10 story = ?head" unfolding story by simp
  have qa: "story ! (10 + n) = ?qa ! n" if "n < 3 * length (answers s)" for n
    unfolding story using that lq by (simp add: nth_append)
  have pairs: "\<forall>j < length (answers s).
            story ! (10 + 3 * j) =
              Paragraph (''<b>Question '' @ str_int (int j + 1) @ '':</b> '' @
                         question (answers s ! j)) Normal \<and>
            story ! (10 + 3 * j + 1) =
              Paragraph (''<b>Answer:</b> '' @ answer (answers s ! j)) Normal \<and>
            story ! (10 + 3 * j + 2) = Spacer 1 12"
  proof (intro allI impI)
    fix j assume j: "j < length (answers s)"
    have a: "story ! (10 + 3 * j) = ?qa ! (3 * j)" using qa [of "3 * j"] j by simp
    have b: "story ! (10 + 3 * j + 1) = ?qa ! (3 * j + 1)" using qa [of "3 * j + 1"] j by (simp add: add.assoc)
    have c: "story ! (10 + 3 * j + 2) = ?qa ! (3 * j + 2)" using qa [of "3 * j + 2"] j by (simp add: add.assoc)
    show "story ! (10 + 3 * j) =
              Paragraph (''<b>Question '' @ str_int (int j + 1) @ '':</b> '' @
                         question (answers s ! j)) Normal \<and>
            story ! (10 + 3 * j + 1) =
              Paragraph (''<b>Answer:</b> '' @ answer (answers s ! j)) Normal \<and>
            story ! (10 + 3 * j + 2) = Spacer 1 12"
      unfolding a b c using nth_qa_loop [OF j, of 1] by (simp add: add.commute)
  qed
  have tl1: "story ! (10 + 3 * length (answers s)) = Paragraph ''<b>Overall Assessment:</b>'' Heading2"
    unfolding story using lq by (simp add: nth_append)
  have tl2: "story ! (11 + 3 * length (answers s)) = Paragraph (assessment avg) Normal"
    unfolding story using lq by (simp add: nth_append)
  have tb: "tables story = [metrics_table_data s]"
    unfolding story by (simp add: tables_append tables_qa_loop)
  show ?thesis
    using len hd pairs tl1 tl2 tb by (simp add: metrics_table_data_def) blast
qed

theorem report_lists_every_answer_witness:
  "\<exists>story.
     generate_pdf_report (\<lambda>x. x) (ex_scored 77 77 77) = Inr story \<and>
     length story = 21 \<and>
     story ! 10 = Paragraph
       ''<b>Question 1:</b> Can you walk me through your experience with the technologies mentioned in your resume?''
       Normal \<and>
     story ! 11 = Paragraph ''<b>Answer:</b> I have 5 years of experience'' Normal \<and>
     story ! 16 = Paragraph
       ''<b>Question 3:</b> How do you handle working in a team environment with different personalities?''
       Normal \<and>
     story ! 17 = Paragraph ''<b>Answer:</b> I listen first'' Normal \<and>
     tables story =
       [[[''Metric'', ''Score''], [''Attention'', ''77%''], [''Positivity'', ''77%''],
         [''Confidence'', ''77%'']]]"
proof -
  obtain story where st: "generate_pdf_report (\<lambda>x. x) (ex_scored 77 77 77) = Inr story"
    using ex_report_last [of 77 77 77] by auto
  note inst = report_lists_every_answer [OF st]
  have as: "answers (ex_scored 77 77 77) = ex_answers" by (simp add: ex_scored_def ex_session_def)
  have ms: "attention (metrics (ex_scored 77 77 77)) = 77"
        "positivity (metrics (ex_scored 77 77 77)) = 77"
        "confidence (metrics (ex_scored 77 77 77)) = 77"
    by (simp_all add: ex_scored_def)
  have n: "length ex_answers = 3" by (simp add: ex_answers_def)
  have len: "length story = 21" using inst as n by simp
  have tb: "tables story =
       [[[''Metric'', ''Score''], [''Attention'', ''77%''], [''Positivity'', ''77%''],
         [''Confidence'', ''77%'']]]"
    using inst ms by (simp add: str_int_small)
  have pairs: "\<forall>j < 3.
            story ! (10 + 3 * j) =
              Paragraph (''<b>Question '' @ str_int (int j + 1) @ '':</b> '' @
                         question (ex_answers ! j)) Normal \<and>
            story ! (10 + 3 * j + 1) =
              Paragraph (''<b>Answer:</b> '' @ answer (ex_answers ! j)) Normal \<and>
            story ! (10 + 3 * j + 2) = Spacer 1 12"
    using inst unfolding as n by blast
  have p0: "story ! 10 = Paragraph
       ''<b>Question 1:</b> Can you walk me through your experience with the technologies mentioned in your resume?''
       Normal"
       "story ! 11 = Paragraph ''<b>Answer:</b> I have 5 years of experience'' Normal"
    using pairs [rule_format, of 0]
    by (simp_all add: str_int_small ex_answers_def ex_answer_def INTERVIEW_QUESTIONS_def)
  have p2: "story ! 16 = Paragraph
       ''<b>Question 3:</b> How do you handle working in a team environment with different personalities?''
       Normal"
       "story ! 17 = Paragraph ''<b>Answer:</b> I listen first'' Normal"
    using pairs [rule_format, of 2]
    by (simp_all add: str_int_small ex_answers_def ex_answer_def INTERVIEW_QUESTIONS_def)
  show ?thesis using st len p0 p2 tb by simp
qed

section \<open>Copies of the question bank\<close>



end
